theory Spec2Isabelle
  imports Complex_Main "HOL-Library.AList"
begin

section \<open>The OTP service of server.js\<close>

text \<open>
  The functions \<open>generateOTP\<close>, \<open>storeOTP\<close>, \<open>verifyOTP\<close> and the cleanup timer of
  \<open>server.js\<close>, embedded as HOL functions.

  \<^item> \<open>Date.now()\<close> is read at most once per call; it is the first parameter \<open>now\<close>
    (milliseconds, an integer).
  \<^item> \<open>Math.random()\<close> is the parameter \<open>r\<close> of \<open>generateOTP\<close>.
  \<^item> The module-level \<open>otpStore\<close> (a JavaScript \<open>Map\<close>) is passed in and returned. A
    \<open>Map\<close> is a list of entries in insertion order with pairwise different keys:
    \<open>get\<close> is \<^const>\<open>map_of\<close>, \<open>set\<close> is \<^const>\<open>AList.update\<close> (replace the value in
    place, or append a new entry), \<open>delete\<close> is \<^const>\<open>AList.delete\<close>.
  \<^item> Identifiers and codes are strings, compared by \<open>===\<close> / \<open>!==\<close>, which on
    strings is equality of contents. The parameter \<open>otp\<close> of \<open>storeOTP\<close> and
    \<open>verifyOTP\<close> is called \<open>code\<close> here, since \<open>otp\<close> names the field of the stored
    object.
\<close>

subsection \<open>Data\<close>

text \<open>The object literal \<open>{ otp, expiresAt, attempts }\<close> stored per identifier.\<close>

record otp_record =
  otp :: string
  expiresAt :: int
  attempts :: int

type_synonym otpStore = "(string \<times> otp_record) list"

text \<open>The object \<open>{ success, message }\<close> returned by \<open>verifyOTP\<close>.\<close>

record verify_result =
  success :: bool
  message :: string

text \<open>
  The five outcomes, under the names the specification gives them; each is the object the
  corresponding \<open>return\<close> statement of \<open>verifyOTP\<close> builds.
\<close>

definition NotFound :: verify_result where
  "NotFound = \<lparr>success = False, message = ''OTP not found or expired''\<rparr>"

definition Expired :: verify_result where
  "Expired = \<lparr>success = False, message = ''OTP has expired''\<rparr>"

definition LockedOut :: verify_result where
  "LockedOut = \<lparr>success = False, message = ''Maximum attempts exceeded''\<rparr>"

definition Mismatch :: verify_result where
  "Mismatch = \<lparr>success = False, message = ''Invalid OTP''\<rparr>"

definition Success :: verify_result where
  "Success = \<lparr>success = True, message = ''OTP verified successfully''\<rparr>"

text \<open>
  A stored object read as JavaScript reads it: by property name. The literal of
  \<open>storeOTP\<close> has the three properties below and no other, so any other name reads
  \<open>undefined\<close> (\<open>None\<close>).
\<close>

datatype jsval = JNum int | JStr string

definition own_properties :: "otp_record \<Rightarrow> (string \<times> jsval) list" where
  "own_properties d =
     [(''otp'', JStr (otp d)), (''expiresAt'', JNum (expiresAt d)), (''attempts'', JNum (attempts d))]"

definition get_property :: "otp_record \<Rightarrow> string \<Rightarrow> jsval option" where
  "get_property d name = map_of (own_properties d) name"

subsection \<open>storeOTP\<close>

definition storeOTP :: "int \<Rightarrow> string \<Rightarrow> string \<Rightarrow> otpStore \<Rightarrow> otpStore" where
  "storeOTP now identifier code st =
     (let expirationTime = now + 10 * 60 * 1000
      in AList.update identifier
           \<lparr>otp = code, expiresAt = expirationTime, attempts = 0\<rparr> st)"

subsection \<open>verifyOTP\<close>

text \<open>
  \<open>storedData\<close> is a reference to the object held by the map, so \<open>storedData.attempts++\<close>
  changes the stored entry: in the model the entry is written back under the same key.
  Every \<open>storeOTP\<close> builds a fresh object, so no two entries share one.
\<close>

definition verifyOTP :: "int \<Rightarrow> string \<Rightarrow> string \<Rightarrow> otpStore \<Rightarrow> verify_result \<times> otpStore" where
  "verifyOTP now identifier code st =
     (case map_of st identifier of
        None \<Rightarrow> (\<lparr>success = False, message = ''OTP not found or expired''\<rparr>, st)
      | Some storedData \<Rightarrow>
          if now > expiresAt storedData then
            (\<lparr>success = False, message = ''OTP has expired''\<rparr>, AList.delete identifier st)
          else if attempts storedData \<ge> 3 then
            (\<lparr>success = False, message = ''Maximum attempts exceeded''\<rparr>,
             AList.delete identifier st)
          else if otp storedData \<noteq> code then
            (\<lparr>success = False, message = ''Invalid OTP''\<rparr>,
             AList.update identifier (storedData\<lparr>attempts := attempts storedData + 1\<rparr>) st)
          else
            (\<lparr>success = True, message = ''OTP verified successfully''\<rparr>,
             AList.delete identifier st))"

subsection \<open>The cleanup timer\<close>

text \<open>
  The callback of \<open>setInterval\<close>: one pass over \<open>otpStore.entries()\<close>, deleting each entry
  with \<open>now > data.expiresAt\<close>. Deleting the entry the iterator stands on does not disturb
  the iteration, so the pass visits every entry present at its start once; the second
  argument of \<open>sweep_loop\<close> is what remains to be visited, the third the map. The
  callback has no name in the source; \<open>sweepExpired\<close> is the specification's name for it.
\<close>

fun sweep_loop :: "int \<Rightarrow> (string \<times> otp_record) list \<Rightarrow> otpStore \<Rightarrow> otpStore" where
  "sweep_loop now [] st = st"
| "sweep_loop now ((identifier, data) # rest) st =
     sweep_loop now rest (if now > expiresAt data then AList.delete identifier st else st)"

definition sweepExpired :: "int \<Rightarrow> otpStore \<Rightarrow> otpStore" where
  "sweepExpired now st = sweep_loop now st st"

subsection \<open>Double arithmetic\<close>






subsection \<open>generateOTP\<close>








subsection \<open>Sequences of operations\<close>

text \<open>
  What the request handlers and the timer do to the store, as data: any run of the server
  is a list of these, applied to the empty map.
\<close>

datatype otp_op =
    Issue int string string
  | Verify int string string
  | Sweep int

fun apply_op :: "otp_op \<Rightarrow> otpStore \<Rightarrow> otpStore" where
  "apply_op (Issue now identifier code) st = storeOTP now identifier code st"
| "apply_op (Verify now identifier code) st = snd (verifyOTP now identifier code st)"
| "apply_op (Sweep now) st = sweepExpired now st"

fun run_ops :: "otp_op list \<Rightarrow> otpStore \<Rightarrow> otpStore" where
  "run_ops [] st = st"
| "run_ops (x # xs) st = run_ops xs (apply_op x st)"

text \<open>The bound on \<open>attempts\<close>, as a property of a store.\<close>

definition attempts_ok :: "otpStore \<Rightarrow> bool" where
  "attempts_ok st = (\<forall>e \<in> set st. 0 \<le> attempts (snd e) \<and> attempts (snd e) \<le> 3)"

section \<open>Basic facts\<close>

lemma results_distinct:
  "NotFound \<noteq> Expired" "NotFound \<noteq> LockedOut" "NotFound \<noteq> Mismatch" "NotFound \<noteq> Success"
  "Expired \<noteq> LockedOut" "Expired \<noteq> Mismatch" "Expired \<noteq> Success"
  "LockedOut \<noteq> Mismatch" "LockedOut \<noteq> Success" "Mismatch \<noteq> Success"
  by (simp_all add: NotFound_def Expired_def LockedOut_def Mismatch_def Success_def)

lemma update_keys_present:
  "map_of al k = Some v \<Longrightarrow> map fst (AList.update k v' al) = map fst al"
  by (induction al) (auto split: if_splits)

text \<open>What the loop leaves: the entries whose key was not deleted along the way.\<close>

lemma sweep_loop_filter:
  "sweep_loop now xs st =
     filter (\<lambda>e. fst e \<notin> fst ` {x \<in> set xs. now > expiresAt (snd x)}) st"
proof (induction xs arbitrary: st)
  case Nil
  then show ?case by simp
next
  case (Cons x xs)
  obtain k d where x: "x = (k, d)" by (cases x)
  have K: "fst ` {y \<in> set (x # xs). now > expiresAt (snd y)} =
      (if now > expiresAt d then insert k (fst ` {y \<in> set xs. now > expiresAt (snd y)})
       else fst ` {y \<in> set xs. now > expiresAt (snd y)})"
    unfolding x by force
  show ?case
    unfolding K unfolding x by (auto simp: Cons.IH AList.delete_eq intro!: filter_cong)
qed

section \<open>The verifier\<close>

text \<open>
  C1. A call of \<open>verifyOTP\<close> decides in this order: no entry for the identifier gives
  NotFound, with the message \<open>OTP not found or expired\<close>, and the store as it was;
  otherwise \<open>now > expiresAt\<close> gives Expired and the entry is deleted; otherwise
  \<open>attempts \<ge> 3\<close> gives LockedOut and the entry is deleted; otherwise a submitted code
  different from the stored one gives Mismatch and the entry stays, with \<open>attempts\<close> one
  higher; otherwise Success and the entry is deleted. Deleting or changing the entry
  leaves every other identifier's entry as it was.
\<close>

theorem verifyOTP_ordered_cases:
  "case verifyOTP now identifier code st of (res, st') \<Rightarrow>
     (case map_of st identifier of
        None \<Rightarrow> res = NotFound \<and> message res = ''OTP not found or expired'' \<and> st' = st
      | Some d \<Rightarrow>
          if now > expiresAt d then
            res = Expired \<and> map_of st' = (map_of st)(identifier := None)
          else if attempts d \<ge> 3 then
            res = LockedOut \<and> map_of st' = (map_of st)(identifier := None)
          else if code \<noteq> otp d then
            res = Mismatch \<and>
            map_of st' = (map_of st)(identifier \<mapsto> d\<lparr>attempts := attempts d + 1\<rparr>)
          else
            res = Success \<and> map_of st' = (map_of st)(identifier := None))"
  by (auto simp: verifyOTP_def NotFound_def Expired_def LockedOut_def Mismatch_def Success_def
      AList.delete_conv' AList.update_conv' split: option.splits)

theorem verifyOTP_ordered_cases_witness:
  "verifyOTP 5 ''a@x.com'' ''482913'' [] = (NotFound, []) \<and>
   fst (verifyOTP 600001 ''a@x.com'' ''482913''
          [(''a@x.com'', \<lparr>otp = ''482913'', expiresAt = 600000, attempts = 0\<rparr>)]) = Expired \<and>
   fst (verifyOTP 5 ''a@x.com'' ''482913''
          [(''a@x.com'', \<lparr>otp = ''482913'', expiresAt = 600000, attempts = 3\<rparr>)]) = LockedOut \<and>
   verifyOTP 5 ''a@x.com'' ''111111''
          [(''a@x.com'', \<lparr>otp = ''482913'', expiresAt = 600000, attempts = 0\<rparr>)] =
     (Mismatch, [(''a@x.com'', \<lparr>otp = ''482913'', expiresAt = 600000, attempts = 1\<rparr>)]) \<and>
   verifyOTP 5 ''a@x.com'' ''482913''
          [(''a@x.com'', \<lparr>otp = ''482913'', expiresAt = 600000, attempts = 0\<rparr>)] =
     (Success, [])"
  using
    verifyOTP_ordered_cases [where now = 5 and ?identifier = "''a@x.com''"
      and code = "''482913''" and st = "[]"]
    verifyOTP_ordered_cases [where now = 600001 and ?identifier = "''a@x.com''"
      and code = "''482913''"
      and st = "[(''a@x.com'', \<lparr>otp = ''482913'', expiresAt = 600000, attempts = 0\<rparr>)]"]
    verifyOTP_ordered_cases [where now = 5 and ?identifier = "''a@x.com''"
      and code = "''482913''"
      and st = "[(''a@x.com'', \<lparr>otp = ''482913'', expiresAt = 600000, attempts = 3\<rparr>)]"]
    verifyOTP_ordered_cases [where now = 5 and ?identifier = "''a@x.com''"
      and code = "''111111''"
      and st = "[(''a@x.com'', \<lparr>otp = ''482913'', expiresAt = 600000, attempts = 0\<rparr>)]"]
    verifyOTP_ordered_cases [where now = 5 and ?identifier = "''a@x.com''"
      and code = "''482913''"
      and st = "[(''a@x.com'', \<lparr>otp = ''482913'', expiresAt = 600000, attempts = 0\<rparr>)]"]
  by (simp add: verifyOTP_def NotFound_def Expired_def LockedOut_def Mismatch_def Success_def)

text \<open>
  C2. When the entry of an identifier has \<open>attempts = 3\<close> and is not expired, the next
  \<open>verifyOTP\<close> returns LockedOut and deletes the entry, whatever code is submitted: the
  call with any code \<open>code'\<close>, the stored code among them, has the same result and the
  same store, so the submitted code plays no part.
\<close>

theorem verifyOTP_locked_out:
  assumes "map_of st identifier = Some d" and "attempts d = 3" and "\<not> now > expiresAt d"
  shows "fst (verifyOTP now identifier code st) = LockedOut \<and>
         map_of (snd (verifyOTP now identifier code st)) = (map_of st)(identifier := None) \<and>
         verifyOTP now identifier code st = verifyOTP now identifier code' st \<and>
         verifyOTP now identifier (otp d) st = (LockedOut, AList.delete identifier st)"
  using assms by (simp add: verifyOTP_def LockedOut_def AList.delete_conv')

theorem verifyOTP_locked_out_witness:
  "fst (verifyOTP 5 ''a@x.com'' ''482913''
          [(''a@x.com'', \<lparr>otp = ''482913'', expiresAt = 600000, attempts = 3\<rparr>)]) = LockedOut \<and>
   map_of (snd (verifyOTP 5 ''a@x.com'' ''482913''
          [(''a@x.com'', \<lparr>otp = ''482913'', expiresAt = 600000, attempts = 3\<rparr>)])) ''a@x.com''
     = None"
proof -
  let ?d = "\<lparr>otp = ''482913'', expiresAt = 600000, attempts = 3\<rparr>"
  have h1: "map_of [(''a@x.com'', ?d)] ''a@x.com'' = Some ?d" by simp
  have h2: "attempts ?d = 3" by simp
  have h3: "\<not> 5 > expiresAt ?d" by simp
  from verifyOTP_locked_out [OF h1 h2 h3, where code = "''482913''" and code' = "''482913''"]
  show ?thesis by simp
qed

text \<open>
  C6. A \<open>verifyOTP\<close> with the issued code, made on the entry \<open>storeOTP\<close> has just
  written and no later than its expiry time, returns Success; a second \<open>verifyOTP\<close> for
  the same identifier with the same code, at any time, returns NotFound.
\<close>

theorem verify_after_issue:
  assumes "t1 \<le> t0 + 10 * 60 * 1000"
  shows "fst (verifyOTP t1 identifier code (storeOTP t0 identifier code st)) = Success \<and>
         fst (verifyOTP t2 identifier code
                (snd (verifyOTP t1 identifier code (storeOTP t0 identifier code st)))) = NotFound"
  using assms
  by (simp add: verifyOTP_def storeOTP_def Success_def NotFound_def
      AList.delete_conv' AList.update_conv')

theorem verify_after_issue_witness:
  "fst (verifyOTP 1000 ''a@x.com'' ''482913'' (storeOTP 0 ''a@x.com'' ''482913'' [])) = Success \<and>
   fst (verifyOTP 2000 ''a@x.com'' ''482913''
          (snd (verifyOTP 1000 ''a@x.com'' ''482913'' (storeOTP 0 ''a@x.com'' ''482913'' []))))
     = NotFound"
proof -
  have h: "(1000::int) \<le> 0 + 10 * 60 * 1000" by simp
  from verify_after_issue [OF h, where ?identifier = "''a@x.com''" and code = "''482913''"
      and st = "[]" and ?t2.0 = 2000]
  show ?thesis .
qed

text \<open>
  C10. A \<open>verifyOTP\<close> that returns Mismatch changes nothing but \<open>attempts\<close> of the
  identifier's entry, which goes up by one: its \<open>otp\<close> and \<open>expiresAt\<close> are as before,
  the entries of all other identifiers are as before, and so is the order of the keys.
\<close>

theorem mismatch_frame:
  assumes "fst (verifyOTP now identifier code st) = Mismatch"
  shows "(\<exists>d. map_of st identifier = Some d \<and>
            map_of (snd (verifyOTP now identifier code st)) identifier =
              Some \<lparr>otp = otp d, expiresAt = expiresAt d, attempts = attempts d + 1\<rparr>) \<and>
         (\<forall>k. k \<noteq> identifier \<longrightarrow>
            map_of (snd (verifyOTP now identifier code st)) k = map_of st k) \<and>
         map fst (snd (verifyOTP now identifier code st)) = map fst st"
  using assms
  by (auto simp: verifyOTP_def Mismatch_def AList.update_conv' AList.delete_conv'
      update_keys_present split: option.splits if_splits)

theorem mismatch_frame_witness:
  "map_of (snd (verifyOTP 5 ''a@x.com'' ''111111''
      [(''a@x.com'', \<lparr>otp = ''482913'', expiresAt = 600000, attempts = 1\<rparr>),
       (''b@x.com'', \<lparr>otp = ''771204'', expiresAt = 700000, attempts = 2\<rparr>)])) ''a@x.com'' =
     Some \<lparr>otp = ''482913'', expiresAt = 600000, attempts = 2\<rparr> \<and>
   map_of (snd (verifyOTP 5 ''a@x.com'' ''111111''
      [(''a@x.com'', \<lparr>otp = ''482913'', expiresAt = 600000, attempts = 1\<rparr>),
       (''b@x.com'', \<lparr>otp = ''771204'', expiresAt = 700000, attempts = 2\<rparr>)])) ''b@x.com'' =
     Some \<lparr>otp = ''771204'', expiresAt = 700000, attempts = 2\<rparr>"
proof -
  let ?st = "[(''a@x.com'', \<lparr>otp = ''482913'', expiresAt = 600000, attempts = 1\<rparr>),
              (''b@x.com'', \<lparr>otp = ''771204'', expiresAt = 700000, attempts = 2\<rparr>)]"
  have h: "fst (verifyOTP 5 ''a@x.com'' ''111111'' ?st) = Mismatch"
    by (simp add: verifyOTP_def Mismatch_def)
  from mismatch_frame [OF h] show ?thesis by simp
qed

text \<open>
  C3, as the code has it. On the entry \<open>storeOTP\<close> has just written, three \<open>verifyOTP\<close>
  calls with codes different from the stored one, none later than the expiry time, all
  return Mismatch; the third leaves the entry in the store, with \<open>attempts = 3\<close> and its
  code and expiry time as issued. The entry is deleted by the verify call after that,
  which returns LockedOut.
\<close>

theorem three_mismatches:
  assumes "c1 \<noteq> code" and "c2 \<noteq> code" and "c3 \<noteq> code"
    and "t1 \<le> t0 + 10 * 60 * 1000" and "t2 \<le> t0 + 10 * 60 * 1000"
    and "t3 \<le> t0 + 10 * 60 * 1000" and "t4 \<le> t0 + 10 * 60 * 1000"
  shows "let s0 = storeOTP t0 identifier code st;
             (r1, s1) = verifyOTP t1 identifier c1 s0;
             (r2, s2) = verifyOTP t2 identifier c2 s1;
             (r3, s3) = verifyOTP t3 identifier c3 s2;
             (r4, s4) = verifyOTP t4 identifier c4 s3
         in r1 = Mismatch \<and> r2 = Mismatch \<and> r3 = Mismatch \<and>
            map_of s3 identifier =
              Some \<lparr>otp = code, expiresAt = t0 + 10 * 60 * 1000, attempts = 3\<rparr> \<and>
            r4 = LockedOut \<and> map_of s4 identifier = None"
  using assms
  by (simp add: verifyOTP_def storeOTP_def Mismatch_def LockedOut_def
      AList.update_conv' AList.delete_conv')

theorem three_mismatches_witness:
  "map_of (snd (verifyOTP 3000 ''a@x.com'' ''333333''
      (snd (verifyOTP 2000 ''a@x.com'' ''222222''
        (snd (verifyOTP 1000 ''a@x.com'' ''111111''
          (storeOTP 0 ''a@x.com'' ''482913'' []))))))) ''a@x.com'' =
     Some \<lparr>otp = ''482913'', expiresAt = 600000, attempts = 3\<rparr> \<and>
   fst (verifyOTP 4000 ''a@x.com'' ''482913''
     (snd (verifyOTP 3000 ''a@x.com'' ''333333''
      (snd (verifyOTP 2000 ''a@x.com'' ''222222''
        (snd (verifyOTP 1000 ''a@x.com'' ''111111''
          (storeOTP 0 ''a@x.com'' ''482913'' []))))))))
     = LockedOut"
proof -
  have c: "''111111'' \<noteq> ''482913''" "''222222'' \<noteq> ''482913''" "''333333'' \<noteq> ''482913''"
    by simp_all
  have t: "(1000::int) \<le> 0 + 10 * 60 * 1000" "(2000::int) \<le> 0 + 10 * 60 * 1000"
    "(3000::int) \<le> 0 + 10 * 60 * 1000" "(4000::int) \<le> 0 + 10 * 60 * 1000"
    by simp_all
  from three_mismatches [OF c t, where ?identifier = "''a@x.com''" and st = "[]"
      and ?c4.0 = "''482913''"]
  show ?thesis
    by (simp add: Let_def split: prod.splits)
qed

text \<open>
  The third mismatch does not delete the entry: after issuing \<open>482913\<close> at time 0 and
  three wrong codes at times 1000, 2000 and 3000, the third call returns Mismatch and the
  map still holds an entry for the identifier.
\<close>

theorem third_mismatch_keeps_record:
  "fst (verifyOTP 3000 ''a@x.com'' ''333333''
      (snd (verifyOTP 2000 ''a@x.com'' ''222222''
        (snd (verifyOTP 1000 ''a@x.com'' ''111111''
          (storeOTP 0 ''a@x.com'' ''482913'' []))))))
     = Mismatch \<and>
   map_of (snd (verifyOTP 3000 ''a@x.com'' ''333333''
      (snd (verifyOTP 2000 ''a@x.com'' ''222222''
        (snd (verifyOTP 1000 ''a@x.com'' ''111111''
          (storeOTP 0 ''a@x.com'' ''482913'' []))))))) ''a@x.com''
     \<noteq> None"
  by (simp add: verifyOTP_def storeOTP_def Mismatch_def)

section \<open>The store\<close>

text \<open>
  C4, as the code has it. \<open>storeOTP\<close> sets the identifier's entry to the given code,
  \<open>attempts = 0\<close> and \<open>expiresAt = now + 10 * 60 * 1000\<close> milliseconds, replacing an
  entry already there in its place and appending one otherwise; all other entries are as
  before. The entry has no \<open>issuedAt\<close> property. The function is total: it has no
  failing branch.
\<close>

theorem storeOTP_record:
  "map_of (storeOTP now identifier code st) =
     (map_of st)(identifier \<mapsto> \<lparr>otp = code, expiresAt = now + 10 * 60 * 1000, attempts = 0\<rparr>) \<and>
   map fst (storeOTP now identifier code st) =
     (if identifier \<in> set (map fst st) then map fst st else map fst st @ [identifier]) \<and>
   map fst (own_properties \<lparr>otp = code, expiresAt = now + 10 * 60 * 1000, attempts = 0\<rparr>) =
     [''otp'', ''expiresAt'', ''attempts'']"
  by (simp add: storeOTP_def AList.update_conv' AList.update_keys own_properties_def)

theorem storeOTP_record_witness:
  "map_of (storeOTP 1000 ''a@x.com'' ''482913''
      [(''a@x.com'', \<lparr>otp = ''771204'', expiresAt = 5000, attempts = 2\<rparr>)]) ''a@x.com'' =
     Some \<lparr>otp = ''482913'', expiresAt = 601000, attempts = 0\<rparr> \<and>
   map fst (storeOTP 1000 ''a@x.com'' ''482913''
      [(''a@x.com'', \<lparr>otp = ''771204'', expiresAt = 5000, attempts = 2\<rparr>)]) = [''a@x.com'']"
  using storeOTP_record [where now = 1000 and ?identifier = "''a@x.com''"
      and code = "''482913''"
      and st = "[(''a@x.com'', \<lparr>otp = ''771204'', expiresAt = 5000, attempts = 2\<rparr>)]"]
  by simp

text \<open>
  The entry written at time 1000 has no \<open>issuedAt\<close>: reading that property gives
  \<open>undefined\<close>, not 1000.
\<close>

theorem storeOTP_no_issuedAt:
  "storeOTP 1000 ''a@x.com'' ''482913'' [] =
     [(''a@x.com'', \<lparr>otp = ''482913'', expiresAt = 601000, attempts = 0\<rparr>)] \<and>
   get_property \<lparr>otp = ''482913'', expiresAt = 601000, attempts = 0\<rparr> ''issuedAt'' = None \<and>
   get_property \<lparr>otp = ''482913'', expiresAt = 601000, attempts = 0\<rparr> ''issuedAt''
     \<noteq> Some (JNum 1000)"
  by (simp add: storeOTP_def get_property_def own_properties_def)

subsection \<open>One entry per identifier\<close>

lemma filter_key_single:
  "distinct (map fst al) \<Longrightarrow> map_of al k = Some v \<Longrightarrow> length (filter (\<lambda>e. fst e = k) al) = 1"
proof (induction al)
  case Nil
  then show ?case by simp
next
  case (Cons p al)
  show ?case
  proof (cases "fst p = k")
    case True
    with Cons.prems have "k \<notin> fst ` set al" by auto
    then have "filter (\<lambda>e. fst e = k) al = []"
      by (auto simp: filter_empty_conv)
    with True show ?thesis by simp
  next
    case False
    with Cons show ?thesis by (auto split: if_splits)
  qed
qed

text \<open>Every store the server can reach has pairwise different keys, as a \<open>Map\<close> does.\<close>

lemma distinct_keys_apply_op:
  "distinct (map fst st) \<Longrightarrow> distinct (map fst (apply_op x st))"
proof (cases x)
  case (Issue t k c)
  assume "distinct (map fst st)"
  then show ?thesis by (simp add: Issue storeOTP_def AList.distinct_update)
next
  case (Verify t k c)
  assume "distinct (map fst st)"
  then show ?thesis
    by (simp add: Verify verifyOTP_def AList.distinct_update AList.distinct_delete
        split: option.splits)
next
  case (Sweep t)
  assume "distinct (map fst st)"
  then show ?thesis
    by (simp add: Sweep sweepExpired_def sweep_loop_filter distinct_map_filter)
qed

lemma distinct_keys_run_ops:
  "distinct (map fst st) \<Longrightarrow> distinct (map fst (run_ops ops st))"
  by (induction ops arbitrary: st) (auto simp: distinct_keys_apply_op)

text \<open>
  C7. In a map (keys pairwise different), \<open>storeOTP\<close> of \<open>c1\<close> and then of \<open>c2\<close> for
  the same identifier, whatever the two codes are, leaves exactly one entry for it, holding
  \<open>c2\<close> with \<open>attempts = 0\<close>; when \<open>c1\<close> differs from \<open>c2\<close>, a following
  \<open>verifyOTP\<close> of \<open>c1\<close>, at any time, does not return Success.
\<close>

theorem reissue_replaces:
  assumes "distinct (map fst st)"
  shows "length (filter (\<lambda>e. fst e = identifier)
                   (storeOTP t2 identifier c2 (storeOTP t1 identifier c1 st))) = 1 \<and>
         map_of (storeOTP t2 identifier c2 (storeOTP t1 identifier c1 st)) identifier =
           Some \<lparr>otp = c2, expiresAt = t2 + 10 * 60 * 1000, attempts = 0\<rparr> \<and>
         (c1 \<noteq> c2 \<longrightarrow>
            fst (verifyOTP t3 identifier c1
                   (storeOTP t2 identifier c2 (storeOTP t1 identifier c1 st))) \<noteq> Success)"
proof -
  let ?s = "storeOTP t2 identifier c2 (storeOTP t1 identifier c1 st)"
  have d: "distinct (map fst ?s)"
    using assms by (simp add: storeOTP_def AList.distinct_update)
  have m: "map_of ?s identifier = Some \<lparr>otp = c2, expiresAt = t2 + 10 * 60 * 1000, attempts = 0\<rparr>"
    by (simp add: storeOTP_def AList.update_conv')
  from d m have "length (filter (\<lambda>e. fst e = identifier) ?s) = 1"
    by (rule filter_key_single)
  moreover have "fst (verifyOTP t3 identifier c1 ?s) \<noteq> Success" if "c1 \<noteq> c2"
    using that by (simp add: verifyOTP_def m Success_def)
  ultimately show ?thesis using m by simp
qed

theorem reissue_replaces_witness:
  "storeOTP 2000 ''a@x.com'' ''771204'' (storeOTP 1000 ''a@x.com'' ''482913''
      [(''b@x.com'', \<lparr>otp = ''111111'', expiresAt = 5000, attempts = 1\<rparr>)]) =
     [(''b@x.com'', \<lparr>otp = ''111111'', expiresAt = 5000, attempts = 1\<rparr>),
      (''a@x.com'', \<lparr>otp = ''771204'', expiresAt = 602000, attempts = 0\<rparr>)] \<and>
   fst (verifyOTP 3000 ''a@x.com'' ''482913''
      (storeOTP 2000 ''a@x.com'' ''771204'' (storeOTP 1000 ''a@x.com'' ''482913''
        [(''b@x.com'', \<lparr>otp = ''111111'', expiresAt = 5000, attempts = 1\<rparr>)]))) = Mismatch \<and>
   length (filter (\<lambda>e. fst e = ''a@x.com'')
      (storeOTP 2000 ''a@x.com'' ''482913'' (storeOTP 1000 ''a@x.com'' ''482913''
        [(''b@x.com'', \<lparr>otp = ''111111'', expiresAt = 5000, attempts = 1\<rparr>)]))) = 1 \<and>
   map_of (storeOTP 2000 ''a@x.com'' ''482913'' (storeOTP 1000 ''a@x.com'' ''482913''
        [(''b@x.com'', \<lparr>otp = ''111111'', expiresAt = 5000, attempts = 1\<rparr>)])) ''a@x.com'' =
     Some \<lparr>otp = ''482913'', expiresAt = 602000, attempts = 0\<rparr>"
proof -
  have d: "distinct (map fst [(''b@x.com'', \<lparr>otp = ''111111'', expiresAt = 5000, attempts = 1\<rparr>)])"
    by simp
  from reissue_replaces [OF d, where ?identifier = "''a@x.com''" and ?t1.0 = 1000
      and ?t2.0 = 2000 and ?t3.0 = 3000 and ?c1.0 = "''482913''" and ?c2.0 = "''771204''"]
    reissue_replaces [OF d, where ?identifier = "''a@x.com''" and ?t1.0 = 1000
      and ?t2.0 = 2000 and ?t3.0 = 3000 and ?c1.0 = "''482913''" and ?c2.0 = "''482913''"]
  show ?thesis
    by (simp add: storeOTP_def verifyOTP_def Mismatch_def)
qed

subsection \<open>The sweep\<close>

lemma sweepExpired_filter:
  assumes "distinct (map fst st)"
  shows "sweepExpired now st = filter (\<lambda>e. \<not> expiresAt (snd e) < now) st"
proof -
  have "fst e \<notin> fst ` {x \<in> set st. now > expiresAt (snd x)} \<longleftrightarrow> \<not> expiresAt (snd e) < now"
    if "e \<in> set st" for e
  proof
    assume "fst e \<notin> fst ` {x \<in> set st. now > expiresAt (snd x)}"
    with that show "\<not> expiresAt (snd e) < now" by auto
  next
    assume ne: "\<not> expiresAt (snd e) < now"
    show "fst e \<notin> fst ` {x \<in> set st. now > expiresAt (snd x)}"
    proof
      assume "fst e \<in> fst ` {x \<in> set st. now > expiresAt (snd x)}"
      then obtain x where x: "x \<in> set st" "now > expiresAt (snd x)" "fst x = fst e" by auto
      from assms x(1) that x(3) have "x = e"
        by (metis eq_key_imp_eq_value prod.collapse)
      with x(2) ne show False by simp
    qed
  qed
  then show ?thesis
    unfolding sweepExpired_def sweep_loop_filter by (intro filter_cong) auto
qed

text \<open>
  C8. On a map (keys pairwise different), a pass of the cleanup timer at time \<open>now\<close>
  leaves exactly the entries with \<open>\<not> expiresAt < now\<close>, unchanged and in their order: every
  entry with \<open>expiresAt < now\<close> is removed and no other is touched. A second pass at the
  same \<open>now\<close> changes nothing, so it removes no entry.
\<close>

theorem sweepExpired_exact:
  assumes "distinct (map fst st)"
  shows "sweepExpired now st = filter (\<lambda>e. \<not> expiresAt (snd e) < now) st \<and>
         sweepExpired now (sweepExpired now st) = sweepExpired now st \<and>
         length (sweepExpired now (sweepExpired now st)) = length (sweepExpired now st)"
proof -
  have 1: "sweepExpired now st = filter (\<lambda>e. \<not> expiresAt (snd e) < now) st"
    by (rule sweepExpired_filter [OF assms])
  have "distinct (map fst (filter (\<lambda>e. \<not> expiresAt (snd e) < now) st))"
    using assms by (rule distinct_map_filter)
  then have "sweepExpired now (filter (\<lambda>e. \<not> expiresAt (snd e) < now) st) =
      filter (\<lambda>e. \<not> expiresAt (snd e) < now) (filter (\<lambda>e. \<not> expiresAt (snd e) < now) st)"
    by (rule sweepExpired_filter)
  with 1 show ?thesis by simp
qed

theorem sweepExpired_exact_witness:
  "sweepExpired 6000
     [(''a@x.com'', \<lparr>otp = ''482913'', expiresAt = 5000, attempts = 1\<rparr>),
      (''b@x.com'', \<lparr>otp = ''771204'', expiresAt = 6000, attempts = 0\<rparr>),
      (''c@x.com'', \<lparr>otp = ''350117'', expiresAt = 5999, attempts = 3\<rparr>),
      (''d@x.com'', \<lparr>otp = ''902466'', expiresAt = 7000, attempts = 2\<rparr>)] =
     [(''b@x.com'', \<lparr>otp = ''771204'', expiresAt = 6000, attempts = 0\<rparr>),
      (''d@x.com'', \<lparr>otp = ''902466'', expiresAt = 7000, attempts = 2\<rparr>)] \<and>
   sweepExpired 6000 (sweepExpired 6000
     [(''a@x.com'', \<lparr>otp = ''482913'', expiresAt = 5000, attempts = 1\<rparr>),
      (''b@x.com'', \<lparr>otp = ''771204'', expiresAt = 6000, attempts = 0\<rparr>),
      (''c@x.com'', \<lparr>otp = ''350117'', expiresAt = 5999, attempts = 3\<rparr>),
      (''d@x.com'', \<lparr>otp = ''902466'', expiresAt = 7000, attempts = 2\<rparr>)]) =
     [(''b@x.com'', \<lparr>otp = ''771204'', expiresAt = 6000, attempts = 0\<rparr>),
      (''d@x.com'', \<lparr>otp = ''902466'', expiresAt = 7000, attempts = 2\<rparr>)]"
proof -
  let ?st = "[(''a@x.com'', \<lparr>otp = ''482913'', expiresAt = 5000, attempts = 1\<rparr>),
      (''b@x.com'', \<lparr>otp = ''771204'', expiresAt = 6000, attempts = 0\<rparr>),
      (''c@x.com'', \<lparr>otp = ''350117'', expiresAt = 5999, attempts = 3\<rparr>),
      (''d@x.com'', \<lparr>otp = ''902466'', expiresAt = 7000, attempts = 2\<rparr>)]"
  have d: "distinct (map fst ?st)" by simp
  from sweepExpired_exact [OF d, of 6000] show ?thesis by (simp add: sweepExpired_def)
qed

section \<open>The bound on attempts\<close>

lemma set_update_subset: "set (AList.update k v al) \<subseteq> insert (k, v) (set al)"
  by (induction al) auto

lemma attempts_ok_update:
  "attempts_ok st \<Longrightarrow> 0 \<le> attempts d \<Longrightarrow> attempts d \<le> 3 \<Longrightarrow>
   attempts_ok (AList.update k d st)"
  using set_update_subset [of k d st] by (auto simp: attempts_ok_def)

lemma attempts_ok_filter: "attempts_ok st \<Longrightarrow> attempts_ok (filter P st)"
  by (simp add: attempts_ok_def)

lemma attempts_ok_apply_op: "attempts_ok st \<Longrightarrow> attempts_ok (apply_op x st)"
proof (cases x)
  case (Issue t k c)
  assume "attempts_ok st"
  then show ?thesis
    by (simp add: Issue storeOTP_def attempts_ok_update)
next
  case (Verify t k c)
  assume ok: "attempts_ok st"
  show ?thesis
  proof (cases "map_of st k")
    case None
    with ok show ?thesis by (simp add: Verify verifyOTP_def)
  next
    case (Some d)
    then have "(k, d) \<in> set st" by (rule map_of_SomeD)
    with ok have "0 \<le> attempts d" by (auto simp: attempts_ok_def)
    with ok Some show ?thesis
      by (auto simp: Verify verifyOTP_def AList.delete_eq attempts_ok_filter
          intro!: attempts_ok_update)
  qed
next
  case (Sweep t)
  assume "attempts_ok st"
  then show ?thesis
    by (simp add: Sweep sweepExpired_def sweep_loop_filter attempts_ok_filter)
qed

lemma attempts_ok_run_ops: "attempts_ok st \<Longrightarrow> attempts_ok (run_ops ops st)"
  by (induction ops arbitrary: st) (auto simp: attempts_ok_apply_op)

text \<open>
  C9. Every entry of a store reached from the empty map by any sequence of
  \<open>storeOTP\<close>, \<open>verifyOTP\<close> and cleanup passes has \<open>0 \<le> attempts \<le> 3\<close>. The reasons:
  \<open>storeOTP\<close> writes \<open>attempts = 0\<close>; a \<open>verifyOTP\<close> that leaves the identifier's
  entry with a different \<open>attempts\<close> started from \<open>attempts < 3\<close> and added one; and an
  entry with \<open>attempts = 3\<close> is gone after the next \<open>verifyOTP\<close> for its identifier.
\<close>

theorem attempts_bounded:
  "(\<forall>e \<in> set (run_ops ops []). 0 \<le> attempts (snd e) \<and> attempts (snd e) \<le> 3) \<and>
   map_option attempts (map_of (storeOTP now identifier code st) identifier) = Some 0 \<and>
   (\<forall>d d'. map_of st identifier = Some d \<and>
            map_of (snd (verifyOTP now identifier code st)) identifier = Some d' \<and>
            attempts d' \<noteq> attempts d \<longrightarrow>
            attempts d < 3 \<and> attempts d' = attempts d + 1) \<and>
   (\<forall>d. map_of st identifier = Some d \<and> attempts d = 3 \<longrightarrow>
        map_of (snd (verifyOTP now identifier code st)) identifier = None)"
proof -
  have "attempts_ok (run_ops ops [])"
    by (rule attempts_ok_run_ops) (simp add: attempts_ok_def)
  then have 1: "\<forall>e \<in> set (run_ops ops []). 0 \<le> attempts (snd e) \<and> attempts (snd e) \<le> 3"
    by (simp add: attempts_ok_def)
  have 2: "map_option attempts (map_of (storeOTP now identifier code st) identifier) = Some 0"
    by (simp add: storeOTP_def AList.update_conv')
  have 3: "\<forall>d d'. map_of st identifier = Some d \<and>
            map_of (snd (verifyOTP now identifier code st)) identifier = Some d' \<and>
            attempts d' \<noteq> attempts d \<longrightarrow>
            attempts d < 3 \<and> attempts d' = attempts d + 1"
    by (auto simp: verifyOTP_def AList.update_conv' AList.delete_conv' split: if_splits)
  have 4: "\<forall>d. map_of st identifier = Some d \<and> attempts d = 3 \<longrightarrow>
        map_of (snd (verifyOTP now identifier code st)) identifier = None"
    by (auto simp: verifyOTP_def AList.delete_conv')
  from 1 2 3 4 show ?thesis by blast
qed

theorem attempts_bounded_witness:
  "run_ops [Issue 0 ''a@x.com'' ''482913'', Verify 1000 ''a@x.com'' ''111111'',
            Verify 2000 ''a@x.com'' ''222222'', Issue 2500 ''b@x.com'' ''771204'',
            Verify 3000 ''a@x.com'' ''333333'', Sweep 4000,
            Verify 5000 ''b@x.com'' ''771205''] [] =
     [(''a@x.com'', \<lparr>otp = ''482913'', expiresAt = 600000, attempts = 3\<rparr>),
      (''b@x.com'', \<lparr>otp = ''771204'', expiresAt = 602500, attempts = 1\<rparr>)] \<and>
   list_all (\<lambda>e. 0 \<le> attempts (snd e) \<and> attempts (snd e) \<le> 3)
     (run_ops [Issue 0 ''a@x.com'' ''482913'', Verify 1000 ''a@x.com'' ''111111'',
            Verify 2000 ''a@x.com'' ''222222'', Issue 2500 ''b@x.com'' ''771204'',
            Verify 3000 ''a@x.com'' ''333333'', Sweep 4000,
            Verify 5000 ''b@x.com'' ''771205''] []) \<and>
   map_of (snd (verifyOTP 6000 ''a@x.com'' ''482913''
     [(''a@x.com'', \<lparr>otp = ''482913'', expiresAt = 600000, attempts = 3\<rparr>),
      (''b@x.com'', \<lparr>otp = ''771204'', expiresAt = 602500, attempts = 1\<rparr>)])) ''a@x.com'' = None"
proof -
  let ?ops = "[Issue 0 ''a@x.com'' ''482913'', Verify 1000 ''a@x.com'' ''111111'',
            Verify 2000 ''a@x.com'' ''222222'', Issue 2500 ''b@x.com'' ''771204'',
            Verify 3000 ''a@x.com'' ''333333'', Sweep 4000,
            Verify 5000 ''b@x.com'' ''771205'']"
  let ?st = "[(''a@x.com'', \<lparr>otp = ''482913'', expiresAt = 600000, attempts = 3\<rparr>),
      (''b@x.com'', \<lparr>otp = ''771204'', expiresAt = 602500, attempts = 1\<rparr>)]"
  have r: "run_ops ?ops [] = ?st"
    by (simp add: storeOTP_def verifyOTP_def sweepExpired_def)
  have m: "map_of ?st ''a@x.com'' =
      Some \<lparr>otp = ''482913'', expiresAt = 600000, attempts = 3\<rparr>"
    by simp
  from attempts_bounded [where ops = ?ops and st = ?st and ?identifier = "''a@x.com''"
      and now = 6000 and code = "''482913''"]
  have "(\<forall>e \<in> set (run_ops ?ops []). 0 \<le> attempts (snd e) \<and> attempts (snd e) \<le> 3)"
    and "map_of (snd (verifyOTP 6000 ''a@x.com'' ''482913'' ?st)) ''a@x.com'' = None"
    using m by simp_all
  then show ?thesis using r by (simp add: list_all_iff)
qed

section \<open>The code generator\<close>

subsection \<open>Rounding to a double\<close>








































subsection \<open>Decimal numerals\<close>












subsection \<open>The value drawn\<close>

















end
